theory Spec2Isabelle
  imports Complex_Main "HOL-Library.Word" "HOL-Library.List_Lexorder"
begin

section \<open>Values of the source language\<close>

subsection \<open>Strings\<close>

text \<open>
  A TypeScript string is a sequence of UTF-16 code units. String equality, the
  comparison \<open><\<close> (lexicographic on code units, here the order of lists
  from \<open>HOL-Library.List_Lexorder\<close>) and \<open>trim\<close> are all defined on code
  units, so a string is a list of 16-bit words. \<open>ascii\<close> writes a literal made of
  ASCII characters; the other literals of the source are given by their code units.
\<close>

type_synonym js_string = "16 word list"

definition ascii :: "string \<Rightarrow> js_string" where
  "ascii s = map (\<lambda>c. of_nat (of_char c)) s"

text \<open>
  \<open>String.prototype.trim\<close> removes white space and line terminators from both
  ends: TAB, LF, VT, FF, CR, SP, NBSP, U+1680, U+2000 to U+200A, U+2028, U+2029,
  U+202F, U+205F, U+3000 and U+FEFF.
\<close>

definition isWhiteSpace :: "16 word \<Rightarrow> bool" where
  "isWhiteSpace c \<longleftrightarrow>
     c = 0x0009 \<or> c = 0x000A \<or> c = 0x000B \<or> c = 0x000C \<or> c = 0x000D \<or>
     c = 0x0020 \<or> c = 0x00A0 \<or> c = 0x1680 \<or> (0x2000 \<le> c \<and> c \<le> 0x200A) \<or>
     c = 0x2028 \<or> c = 0x2029 \<or> c = 0x202F \<or> c = 0x205F \<or> c = 0x3000 \<or>
     c = 0xFEFF"

definition trim :: "js_string \<Rightarrow> js_string" where
  "trim s = rev (dropWhile isWhiteSpace (rev (dropWhile isWhiteSpace s)))"

text \<open>The truth value of a string in a condition: only the empty string is falsy.\<close>

definition truthy :: "js_string \<Rightarrow> bool" where
  "truthy s \<longleftrightarrow> s \<noteq> []"

subsection \<open>Numbers\<close>

text \<open>
  A TypeScript \<open>number\<close> is an IEEE double. A finite double is taken as the real
  it denotes, so the finite doubles are among the values \<open>Num x\<close>, and the
  comparisons of finite values are those of the reals. What the comparisons do on
  the three non-finite values is written out: every comparison with \<open>NaN\<close> is
  false.
\<close>

datatype number = Num real | NaN | PosInf | NegInf

text \<open>
  A decimal literal of the source denotes the double nearest to it, which is not
  always the decimal itself. The literals \<open>0.7\<close>, \<open>0.9\<close>, \<open>0.92\<close> and \<open>0.88\<close> are
  the doubles \<open>0x3FE6666666666666\<close>, \<open>0x3FECCCCCCCCCCCCD\<close>,
  \<open>0x3FED70A3D70A3D71\<close> and \<open>0x3FEC28F5C28F5C29\<close>, given here as fractions over
  \<open>2^52\<close> and \<open>2^53\<close>. The literals \<open>0.75\<close> and \<open>0.5\<close> and the whole numbers of
  the source are doubles as they are written.
\<close>

definition double_0_7 :: real where
  "double_0_7 = 3152519739159347 / 4503599627370496"

definition double_0_9 :: real where
  "double_0_9 = 8106479329266893 / 9007199254740992"

definition double_0_92 :: real where
  "double_0_92 = 8286623314361713 / 9007199254740992"

definition double_0_88 :: real where
  "double_0_88 = 7926335344172073 / 9007199254740992"

fun num_ge :: "number \<Rightarrow> number \<Rightarrow> bool" where
  "num_ge NaN _ = False"
| "num_ge _ NaN = False"
| "num_ge (Num a) (Num b) = (a \<ge> b)"
| "num_ge PosInf _ = True"
| "num_ge _ NegInf = True"
| "num_ge (Num _) PosInf = False"
| "num_ge NegInf _ = False"

fun num_gt :: "number \<Rightarrow> number \<Rightarrow> bool" where
  "num_gt NaN _ = False"
| "num_gt _ NaN = False"
| "num_gt (Num a) (Num b) = (a > b)"
| "num_gt PosInf PosInf = False"
| "num_gt PosInf _ = True"
| "num_gt NegInf _ = False"
| "num_gt (Num _) NegInf = True"
| "num_gt (Num _) PosInf = False"

definition num_le :: "number \<Rightarrow> number \<Rightarrow> bool" where
  "num_le a b = num_ge b a"

definition num_lt :: "number \<Rightarrow> number \<Rightarrow> bool" where
  "num_lt a b = num_gt b a"

text \<open>Strict equality \<open>===\<close> on numbers: \<open>NaN\<close> equals nothing.\<close>

definition num_eq :: "number \<Rightarrow> number \<Rightarrow> bool" where
  "num_eq a b \<longleftrightarrow> a \<noteq> NaN \<and> a = b"

section \<open>lib/utils: the colour of a match score\<close>

text \<open>
  \<^verbatim>\<open>
  export function getMatchScoreColor(score: number) {
    if (score >= 0.9) return 'bg-green-500'
    if (score >= 0.7) return 'bg-yellow-500'
    return 'bg-red-500'
  }
  \<close>
\<close>

definition getMatchScoreColor :: "number \<Rightarrow> js_string" where
  "getMatchScoreColor score =
     (if num_ge score (Num double_0_9) then ascii ''bg-green-500''
      else if num_ge score (Num double_0_7) then ascii ''bg-yellow-500''
      else ascii ''bg-red-500'')"

section \<open>Effects of an event handler\<close>

text \<open>
  A handler of a React component reads the state of the render it was created in,
  queues state updates, raises toasts (\<open>toast.error\<close>, \<open>toast.success\<close> of
  react-hot-toast) and may schedule a callback with \<open>setTimeout\<close>. A handler is
  modelled as a function from the state to the updated state and the list of
  effects it performed, in order; a scheduled callback is a value that is run
  later by \<open>run_callback\<close>.
\<close>

datatype callback = SubmitDone | BookingDone

datatype effect =
    Toast_error js_string
  | Toast_success js_string
  | SetTimeout callback nat

section \<open>lib/supabase: the types of the data model\<close>

text \<open>
  \<^verbatim>\<open>
  export interface MeetingRoom { ...; status: 'available' | 'booked'; ... }
  export interface Meeting { ...; status: 'booked' | 'cancelled'; ... }
  \<close>
  A union of string literal types is a datatype with one constructor for each
  literal; \<open>literal_of_\<close> gives the string a value of the union is at run time.
\<close>

datatype MeetingRoom_status = Room_available | Room_booked

fun literal_of_MeetingRoom_status :: "MeetingRoom_status \<Rightarrow> js_string" where
  "literal_of_MeetingRoom_status Room_available = ascii ''available''"
| "literal_of_MeetingRoom_status Room_booked = ascii ''booked''"

datatype Meeting_status = Meeting_booked | Meeting_cancelled

fun literal_of_Meeting_status :: "Meeting_status \<Rightarrow> js_string" where
  "literal_of_Meeting_status Meeting_booked = ascii ''booked''"
| "literal_of_Meeting_status Meeting_cancelled = ascii ''cancelled''"

record MeetingRoom =
  id' :: js_string
  name :: js_string
  location :: js_string
  capacity :: number
  equipment :: "js_string list"
  status :: MeetingRoom_status
  created_at :: js_string
  updated_at :: js_string

record Meeting =
  id' :: js_string
  room_id :: js_string
  organizer_id :: js_string
  title :: js_string
  start_time :: js_string
  duration_min :: number
  status :: Meeting_status
  created_at :: js_string
  updated_at :: js_string

section \<open>pages/TasksPage\<close>

datatype Task_status = Draft | Confirmed | Done

record Task =
  id' :: js_string
  description :: js_string
  owner :: js_string
  department :: js_string
  due_date :: js_string
  status :: Task_status

record TasksPage =
  tasks :: "Task list"

definition mockTasks :: "Task list" where
  "mockTasks =
    [\<lparr>Task.id' = ascii ''1'',
      description = [0x5B8C, 0x6210, 0x524D, 0x7AEF, 0x4E3B, 0x8981, 0x529F, 0x80FD, 0x5F00, 0x53D1],
      owner = [0x5F20, 0x4E09],
      department = [0x7814, 0x53D1, 0x90E8],
      due_date = ascii ''2025-01-20'',
      status = Confirmed\<rparr>,
     \<lparr>Task.id' = ascii ''2'',
      description = [0x8865, 0x5145, 0x6D4B, 0x8BD5, 0x7528, 0x4F8B, 0x5230, 0x0038, 0x0030,
                     0x0025, 0x8986, 0x76D6, 0x7387],
      owner = [0x674E, 0x56DB],
      department = [0x6D4B, 0x8BD5, 0x90E8],
      due_date = ascii ''2025-01-18'',
      status = Draft\<rparr>,
     \<lparr>Task.id' = ascii ''3'',
      description = [0x51C6, 0x5907, 0x4EA7, 0x54C1, 0x53D1, 0x5E03, 0x6750, 0x6599],
      owner = [0x738B, 0x4E94],
      department = [0x5E02, 0x573A, 0x90E8],
      due_date = ascii ''2025-01-25'',
      status = Draft\<rparr>,
     \<lparr>Task.id' = ascii ''4'',
      description = [0x4F18, 0x5316, 0x540E, 0x7AEF, 0x6027, 0x80FD],
      owner = [0x8D75, 0x516D],
      department = [0x7814, 0x53D1, 0x90E8],
      due_date = ascii ''2025-01-22'',
      status = Done\<rparr>,
     \<lparr>Task.id' = ascii ''5'',
      description = [0x7528, 0x6237, 0x8C03, 0x7814, 0x62A5, 0x544A],
      owner = [0x5B59, 0x4E03],
      department = [0x4EA7, 0x54C1, 0x90E8],
      due_date = ascii ''2025-01-30'',
      status = Confirmed\<rparr>]"

definition initialTasksPage :: TasksPage where
  "initialTasksPage = \<lparr>tasks = mockTasks\<rparr>"

text \<open>
  \<^verbatim>\<open>
  const updateTaskStatus = (taskId: string, newStatus: Task['status']) => {
    setTasks(tasks.map(task =>
      task.id === taskId ? { ...task, status: newStatus } : task
    ))
    toast.success(...)
  }
  \<close>
\<close>

definition updateTaskStatus :: "js_string \<Rightarrow> Task_status \<Rightarrow> TasksPage \<Rightarrow> TasksPage \<times> effect list" where
  "updateTaskStatus taskId newStatus s =
     (s\<lparr>tasks := map (\<lambda>task. if Task.id' task = taskId
                              then task\<lparr>Task.status := newStatus\<rparr> else task) (tasks s)\<rparr>,
      [Toast_success [0x4EFB, 0x52A1, 0x72B6, 0x6001, 0x5DF2, 0x66F4, 0x65B0]])"

section \<open>The settings page\<close>

datatype Role = Organizer | Participant | Admin

record User =
  id' :: js_string
  username :: js_string
  role :: Role
  department :: js_string

record Template =
  id' :: js_string
  name :: js_string
  description :: js_string

record NewUser =
  username :: js_string
  role :: Role
  department :: js_string

record NewTemplate =
  name :: js_string
  description :: js_string

record SettingsPage =
  activeTab :: js_string
  users :: "User list"
  templates :: "Template list"
  newUser :: NewUser
  newTemplate :: NewTemplate

definition mockUsers :: "User list" where
  "mockUsers =
    [\<lparr>User.id' = ascii ''1'', username = ascii ''admin'', role = Admin,
      department = [0x7BA1, 0x7406, 0x90E8]\<rparr>,
     \<lparr>User.id' = ascii ''2'', username = [0x5F20, 0x4E09], role = Organizer,
      department = [0x7814, 0x53D1, 0x90E8]\<rparr>,
     \<lparr>User.id' = ascii ''3'', username = [0x674E, 0x56DB], role = Participant,
      department = [0x6D4B, 0x8BD5, 0x90E8]\<rparr>,
     \<lparr>User.id' = ascii ''4'', username = [0x738B, 0x4E94], role = Organizer,
      department = [0x5E02, 0x573A, 0x90E8]\<rparr>]"

definition mockTemplates :: "Template list" where
  "mockTemplates =
    [\<lparr>Template.id' = ascii ''default'',
      name = [0x9ED8, 0x8BA4, 0x6A21, 0x677F],
      description = [0x6807, 0x51C6, 0x4F1A, 0x8BAE, 0x7EAA, 0x8981, 0x6A21, 0x677F]\<rparr>,
     \<lparr>Template.id' = ascii ''project'',
      name = [0x9879, 0x76EE, 0x4F1A, 0x8BAE, 0x6A21, 0x677F],
      description = [0x9002, 0x7528, 0x4E8E, 0x9879, 0x76EE, 0x76F8, 0x5173, 0x4F1A, 0x8BAE]\<rparr>,
     \<lparr>Template.id' = ascii ''review'',
      name = [0x8BC4, 0x5BA1, 0x4F1A, 0x8BAE, 0x6A21, 0x677F],
      description = [0x9002, 0x7528, 0x4E8E, 0x6280, 0x672F, 0x8BC4, 0x5BA1, 0x4F1A, 0x8BAE]\<rparr>]"

definition initialSettingsPage :: SettingsPage where
  "initialSettingsPage =
    \<lparr>activeTab = ascii ''users'',
     users = mockUsers,
     templates = mockTemplates,
     newUser = \<lparr>NewUser.username = [], role = Participant, department = []\<rparr>,
     newTemplate = \<lparr>NewTemplate.name = [], description = []\<rparr>\<rparr>"

text \<open>
  \<open>Date.now().toString()\<close>: the clock is an input of the handler, a whole number
  of milliseconds, and \<open>toString\<close> writes it in decimal. A time value is at most
  \<open>8.64e15\<close> in magnitude, far below \<open>1e21\<close>, from where on \<open>toString\<close> would
  write an exponent.
\<close>

function decimal :: "nat \<Rightarrow> js_string" where
  "decimal n =
     (if n < 10 then [of_nat (48 + n)]
      else decimal (n div 10) @ [of_nat (48 + n mod 10)])"
  by pat_completeness auto
termination
  by (relation "measure (\<lambda>n. n)") auto

definition toString :: "int \<Rightarrow> js_string" where
  "toString i = (if i < 0 then 0x002D # decimal (nat (- i)) else decimal (nat i))"

text \<open>
  \<^verbatim>\<open>
  const handleAddUser = () => {
    if (!newUser.username || !newUser.department) { toast.error(...); return }
    const user: User = { id: Date.now().toString(), username: newUser.username,
                         role: newUser.role, department: newUser.department }
    setUsers([...users, user])
    setNewUser({ username: '', role: 'participant', department: '' })
    toast.success(...)
  }
  \<close>
\<close>

definition handleAddUser :: "int \<Rightarrow> SettingsPage \<Rightarrow> SettingsPage \<times> effect list" where
  "handleAddUser now s =
     (if \<not> truthy (NewUser.username (newUser s)) \<or> \<not> truthy (NewUser.department (newUser s))
      then (s, [Toast_error [0x8BF7, 0x586B, 0x5199, 0x5B8C, 0x6574, 0x4FE1, 0x606F]])
      else
        (let user = \<lparr>User.id' = toString now,
                     username = NewUser.username (newUser s),
                     role = NewUser.role (newUser s),
                     department = NewUser.department (newUser s)\<rparr>
         in (s\<lparr>users := users s @ [user],
               newUser := \<lparr>NewUser.username = [], role = Participant, department = []\<rparr>\<rparr>,
             [Toast_success [0x7528, 0x6237, 0x6DFB, 0x52A0, 0x6210, 0x529F]])))"

section \<open>pages/BookingPage\<close>

record MeetingIntent =
  datetime :: js_string
  participants :: number
  location :: js_string
  requirements :: "js_string list"

record RoomRecommendation =
  room_id :: js_string
  name :: js_string
  capacity :: number
  equipment :: "js_string list"
  status :: js_string
  match_score :: number
  deviation :: "js_string list"

record BookingForm =
  title :: js_string
  duration :: number

record BookingPage =
  inputText :: js_string
  isProcessing :: bool
  intent :: "MeetingIntent option"
  recommendations :: "RoomRecommendation list"
  showBookingModal :: bool
  selectedRoom :: "RoomRecommendation option"
  bookingForm :: BookingForm

text \<open>The equipment tags and deviation texts of the mock data, as code units.\<close>

definition video_conference :: js_string where
  "video_conference = [0x89C6, 0x9891, 0x4F1A, 0x8BAE]"

definition whiteboard :: js_string where
  "whiteboard = [0x767D, 0x677F]"

definition projector :: js_string where
  "projector = [0x6295, 0x5F71, 0x4EEA]"

definition sound_system :: js_string where
  "sound_system = [0x97F3, 0x54CD]"

definition missing_video_conference :: js_string where
  "missing_video_conference = [0x7F3A, 0x5C11, 0x89C6, 0x9891, 0x4F1A, 0x8BAE]"

definition capacity_exceeds_need :: js_string where
  "capacity_exceeds_need = [0x5BB9, 0x91CF, 0x8D85, 0x51FA, 0x9700, 0x6C42]"

definition building_A :: js_string where
  "building_A = [0x0041, 0x680B]"

definition mockRecommendations :: "RoomRecommendation list" where
  "mockRecommendations =
    [\<lparr>room_id = ascii ''A301'',
      name = [0x0041, 0x680B, 0x0033, 0x0030, 0x0031, 0x4F1A, 0x8BAE, 0x5BA4],
      capacity = Num 12,
      equipment = [video_conference, whiteboard, projector],
      status = ascii ''available'',
      match_score = Num double_0_92,
      deviation = []\<rparr>,
     \<lparr>room_id = ascii ''A305'',
      name = [0x0041, 0x680B, 0x0033, 0x0030, 0x0035, 0x4F1A, 0x8BAE, 0x5BA4],
      capacity = Num 10,
      equipment = [whiteboard, projector],
      status = ascii ''available'',
      match_score = Num 0.75,
      deviation = [missing_video_conference]\<rparr>,
     \<lparr>room_id = ascii ''B201'',
      name = [0x0042, 0x680B, 0x0032, 0x0030, 0x0031, 0x4F1A, 0x8BAE, 0x5BA4],
      capacity = Num 15,
      equipment = [video_conference, whiteboard, projector, sound_system],
      status = ascii ''available'',
      match_score = Num double_0_88,
      deviation = [capacity_exceeds_need]\<rparr>]"

definition mockIntent :: MeetingIntent where
  "mockIntent =
    \<lparr>datetime = ascii ''2025-01-15T15:00:00'',
     participants = Num 10,
     location = building_A,
     requirements = [video_conference]\<rparr>"

text \<open>The state of the first render.\<close>

definition initialBookingPage :: BookingPage where
  "initialBookingPage =
    \<lparr>inputText = [],
     isProcessing = False,
     intent = None,
     recommendations = [],
     showBookingModal = False,
     selectedRoom = None,
     bookingForm = \<lparr>title = [], duration = Num 60\<rparr>\<rparr>"

text \<open>
  \<^verbatim>\<open>
  const handleSubmit = async () => {
    if (!inputText.trim()) { toast.error(...); return }
    setIsProcessing(true)
    setTimeout(() => {
      setIntent(mockIntent)
      setRecommendations(mockRecommendations)
      setIsProcessing(false)
      toast.success(...)
    }, 2000)
  }
  \<close>
  The part that runs at the click is \<open>handleSubmit\<close>; the arrow function given to
  \<open>setTimeout\<close> is \<open>run_callback SubmitDone\<close>.
\<close>

definition handleSubmit :: "BookingPage \<Rightarrow> BookingPage \<times> effect list" where
  "handleSubmit s =
     (if \<not> truthy (trim (inputText s))
      then (s, [Toast_error [0x8BF7, 0x8F93, 0x5165, 0x4F1A, 0x8BAE, 0x9700, 0x6C42]])
      else (s\<lparr>isProcessing := True\<rparr>, [SetTimeout SubmitDone 2000]))"

definition handleBookRoom :: "RoomRecommendation \<Rightarrow> BookingPage \<Rightarrow> BookingPage \<times> effect list" where
  "handleBookRoom room s = (s\<lparr>selectedRoom := Some room, showBookingModal := True\<rparr>, [])"

text \<open>
  \<^verbatim>\<open>
  const confirmBooking = async () => {
    if (!bookingForm.title.trim()) { toast.error(...); return }
    setIsProcessing(true)
    setTimeout(() => {
      toast.success(...)
      setShowBookingModal(false)
      setSelectedRoom(null)
      setBookingForm({ title: '', duration: 60 })
      setIsProcessing(false)
    }, 1000)
  }
  \<close>
\<close>

definition confirmBooking :: "BookingPage \<Rightarrow> BookingPage \<times> effect list" where
  "confirmBooking s =
     (if \<not> truthy (trim (title (bookingForm s)))
      then (s, [Toast_error [0x8BF7, 0x8F93, 0x5165, 0x4F1A, 0x8BAE, 0x4E3B, 0x9898]])
      else (s\<lparr>isProcessing := True\<rparr>, [SetTimeout BookingDone 1000]))"

fun run_callback :: "callback \<Rightarrow> BookingPage \<Rightarrow> BookingPage \<times> effect list" where
  "run_callback SubmitDone s =
     (s\<lparr>intent := Some mockIntent,
        recommendations := mockRecommendations,
        isProcessing := False\<rparr>,
      [Toast_success [0x5DF2, 0x8BC6, 0x522B, 0x60A8, 0x7684, 0x9700, 0x6C42, 0xFF0C,
                      0x4E3A, 0x60A8, 0x63A8, 0x8350, 0x4F1A, 0x8BAE, 0x5BA4]])"
| "run_callback BookingDone s =
     (s\<lparr>showBookingModal := False,
        selectedRoom := None,
        bookingForm := \<lparr>title = [], duration = Num 60\<rparr>,
        isProcessing := False\<rparr>,
      [Toast_success [0x4F1A, 0x8BAE, 0x5BA4, 0x9884, 0x5B9A, 0x6210, 0x529F, 0xFF01]])"

text \<open>
  A handler followed by the callbacks it scheduled: the state once the simulated
  API call has answered, and all the effects up to then, in order.
\<close>

fun run_timers :: "effect list \<Rightarrow> BookingPage \<Rightarrow> BookingPage \<times> effect list" where
  "run_timers [] s = (s, [])"
| "run_timers (SetTimeout cb ms # es) s =
     (let (s1, es1) = run_callback cb s; (s2, es2) = run_timers es s1
      in (s2, es1 @ es2))"
| "run_timers (e # es) s = run_timers es s"

definition settled :: "(BookingPage \<Rightarrow> BookingPage \<times> effect list) \<Rightarrow> BookingPage \<Rightarrow> BookingPage \<times> effect list" where
  "settled handler s =
     (let (s1, es) = handler s; (s2, es2) = run_timers es s1 in (s2, es @ es2))"

text \<open>
  The events of the page, as its JSX wires them: typing into the text area, the
  submit button, the book button of the \<open>i\<close>-th recommendation shown, the two
  fields of the booking form, the cancel and confirm buttons of the modal, and a
  timer running out. A button that is disabled or not rendered is still accepted
  here, and a timer may fire without having been set: the states the page can
  reach are among those reached by lists of these events.
\<close>

datatype event =
    SetInputText js_string
  | Submit
  | BookRoom nat
  | SetTitle js_string
  | SetDuration number
  | CloseModal
  | Confirm
  | Timer callback

fun dispatch :: "BookingPage \<Rightarrow> event \<Rightarrow> BookingPage" where
  "dispatch s (SetInputText v) = s\<lparr>inputText := v\<rparr>"
| "dispatch s Submit = fst (handleSubmit s)"
| "dispatch s (BookRoom i) =
     (if i < length (recommendations s)
      then fst (handleBookRoom (recommendations s ! i) s) else s)"
| "dispatch s (SetTitle v) = s\<lparr>bookingForm := (bookingForm s)\<lparr>title := v\<rparr>\<rparr>"
| "dispatch s (SetDuration v) = s\<lparr>bookingForm := (bookingForm s)\<lparr>duration := v\<rparr>\<rparr>"
| "dispatch s CloseModal = s\<lparr>showBookingModal := False\<rparr>"
| "dispatch s Confirm = fst (confirmBooking s)"
| "dispatch s (Timer cb) = fst (run_callback cb s)"

definition run_events :: "event list \<Rightarrow> BookingPage" where
  "run_events evs = foldl dispatch initialBookingPage evs"

text \<open>
  The page has no function called \<open>recommend\<close>: the recommendations of a request
  are the \<open>recommendations\<close> of the state once \<open>handleSubmit\<close> has settled.
\<close>

definition recommend :: "BookingPage \<Rightarrow> RoomRecommendation list" where
  "recommend s = recommendations (fst (settled handleSubmit s))"

text \<open>
  The order the contract of \<open>recommend\<close> asks for: \<open>a\<close> may stand before \<open>b\<close> when
  its score is greater, or the scores are equal and its room identifier is not
  greater.
\<close>

definition ranked_before :: "RoomRecommendation \<Rightarrow> RoomRecommendation \<Rightarrow> bool" where
  "ranked_before a b \<longleftrightarrow>
     num_gt (match_score a) (match_score b) \<or>
     (num_eq (match_score a) (match_score b) \<and> room_id a \<le> room_id b)"

section \<open>The booking engine\<close>

text \<open>
  The page books nothing: \<open>confirmBooking\<close> only simulates the call. The
  operations \<open>book\<close>, \<open>cancel\<close> and \<open>alter\<close>, the room catalogue and the
  availability index belong to the back end of the repository, which is outside
  the front-end sources embedded above; they are modelled from the specification
  (sections 3, 4.1, 4.2, 4.4 and 7). The per-room lock of section 5 makes each
  operation atomic, so an execution, concurrent or not, is a sequence of
  operations.
\<close>

text \<open>Modelled from the spec: an instant of time (section 3, TimeRange), here a
  whole number of minutes.\<close>

type_synonym instant = int

text \<open>Modelled from the spec: TimeRange, "start and end instants" (section 3).\<close>

record TimeRange =
  start :: instant
  end' :: instant

text \<open>Modelled from the spec: the invariant \<open>start < end\<close> of a TimeRange, which a
  request has to satisfy (sections 3 and 7).\<close>

definition valid_range :: "TimeRange \<Rightarrow> bool" where
  "valid_range r \<longleftrightarrow> start r < end' r"

text \<open>Modelled from the spec: "two ranges overlap iff
  \<open>a.start < b.end && b.start < a.end\<close>" (section 3).\<close>

definition overlap :: "TimeRange \<Rightarrow> TimeRange \<Rightarrow> bool" where
  "overlap a b \<longleftrightarrow> start a < end' b \<and> start b < end' a"

text \<open>Modelled from the spec: the lifecycle status of a Room (section 3).\<close>

datatype Lifecycle = Active | Retired

text \<open>Modelled from the spec: Room (section 3): identifier, display name,
  location (building and floor), capacity, equipment tags, lifecycle status.\<close>

record Room =
  room_identifier :: string
  display_name :: string
  building :: string
  floor_number :: int
  seats :: nat
  capability_tags :: "string list"
  lifecycle :: Lifecycle

text \<open>Modelled from the spec: the status of a Booking (section 3).\<close>

datatype BookingStatus = Booked | Cancelled

text \<open>Modelled from the spec: Booking (section 3): identifier, room reference,
  organizer reference, title, TimeRange, status.\<close>

record Booking =
  booking_id :: nat
  room_ref :: string
  organizer_ref :: string
  booking_title :: string
  time_range :: TimeRange
  booking_status :: BookingStatus

text \<open>Modelled from the spec: the error taxonomy (section 7); a Conflict names
  the booking that caused it.\<close>

datatype error = ValidationError | NotFoundError | Conflict nat | ExternalServiceError

text \<open>Modelled from the spec: \<open>RoomCatalog.get\<close> (section 4.1), which "fails with
  NotFound if absent or retired".\<close>

definition catalog_get :: "Room list \<Rightarrow> string \<Rightarrow> error + Room" where
  "catalog_get rooms rid =
     (case find (\<lambda>r. room_identifier r = rid) rooms of
        None \<Rightarrow> Inl NotFoundError
      | Some r \<Rightarrow> if lifecycle r = Retired then Inl NotFoundError else Inr r)"

text \<open>Modelled from the spec: AvailabilityIndex (section 4.2), for each room the
  intervals reserved in it, each with the booking that holds it.\<close>

type_synonym AvailabilityIndex = "string \<Rightarrow> (nat \<times> TimeRange) list"

text \<open>Modelled from the spec: the entry of the index, if any, that makes a room
  not free in a range: the first reserved interval that overlaps it.\<close>

definition conflicting :: "AvailabilityIndex \<Rightarrow> string \<Rightarrow> TimeRange \<Rightarrow> (nat \<times> TimeRange) option" where
  "conflicting idx rid rng = find (\<lambda>entry. overlap (snd entry) rng) (idx rid)"

text \<open>Modelled from the spec: \<open>isFree\<close> (section 4.2), "true iff no existing
  booked interval for that room overlaps range".\<close>

definition isFree :: "AvailabilityIndex \<Rightarrow> string \<Rightarrow> TimeRange \<Rightarrow> bool" where
  "isFree idx rid rng \<longleftrightarrow> conflicting idx rid rng = None"

text \<open>Modelled from the spec: \<open>reserve\<close> (section 4.2), which inserts the
  interval and does not check again.\<close>

definition reserve :: "AvailabilityIndex \<Rightarrow> string \<Rightarrow> TimeRange \<Rightarrow> nat \<Rightarrow> AvailabilityIndex" where
  "reserve idx rid rng bid = idx(rid := (bid, rng) # idx rid)"

text \<open>Modelled from the spec: \<open>release\<close> (section 4.2), which removes the
  interval and is a no-op when it is absent.\<close>

definition release :: "AvailabilityIndex \<Rightarrow> string \<Rightarrow> TimeRange \<Rightarrow> nat \<Rightarrow> AvailabilityIndex" where
  "release idx rid rng bid = idx(rid := removeAll (bid, rng) (idx rid))"

text \<open>Modelled from the spec: the state that BookingTransactionManager works on
  (sections 2 and 5): the catalogue, the Booking records, the availability index,
  and the identifier the next booking gets.\<close>

record Engine =
  catalog :: "Room list"
  store :: "Booking list"
  availability :: AvailabilityIndex
  next_booking_id :: nat

text \<open>Modelled from the spec: \<open>book\<close> (sections 4.4, 6 and 7): a range with
  \<open>start \<ge> end\<close> is a ValidationError, an unknown or retired room is NotFound;
  then "re-validate isFree; if free, reserve the interval and persist a new
  Booking with status booked; if not free, fail with Conflict".\<close>

definition book :: "Engine \<Rightarrow> string \<Rightarrow> TimeRange \<Rightarrow> string \<Rightarrow> string \<Rightarrow> error + Booking \<times> Engine" where
  "book e rid rng organizer title' =
     (if \<not> valid_range rng then Inl ValidationError
      else case catalog_get (catalog e) rid of
        Inl err \<Rightarrow> Inl err
      | Inr room \<Rightarrow>
          (case conflicting (availability e) rid rng of
             Some entry \<Rightarrow> Inl (Conflict (fst entry))
           | None \<Rightarrow>
               (let b = \<lparr>booking_id = next_booking_id e, room_ref = rid,
                         organizer_ref = organizer, booking_title = title',
                         time_range = rng, booking_status = Booked\<rparr>
                in Inr (b, e\<lparr>store := store e @ [b],
                             availability := reserve (availability e) rid rng (booking_id b),
                             next_booking_id := Suc (next_booking_id e)\<rparr>))))"

text \<open>Modelled from the spec: \<open>cancel\<close> (sections 4.4 and 6): NotFound for an
  unknown booking; "cancelling an already-cancelled booking succeeds silently";
  otherwise the status becomes cancelled and the interval is released "as part of
  the same transaction".\<close>

definition cancel :: "Engine \<Rightarrow> nat \<Rightarrow> error + Engine" where
  "cancel e bid =
     (case find (\<lambda>b. booking_id b = bid) (store e) of
        None \<Rightarrow> Inl NotFoundError
      | Some b \<Rightarrow>
          if booking_status b = Cancelled then Inr e
          else Inr (e\<lparr>store := map (\<lambda>x. if booking_id x = bid
                                          then x\<lparr>booking_status := Cancelled\<rparr> else x) (store e),
                      availability :=
                        release (availability e) (room_ref b) (time_range b) bid\<rparr>))"

text \<open>Modelled from the spec: \<open>alter\<close> (sections 4.4 and 6): "release the old
  interval, validate the new interval is free (excluding the booking's own
  now-released interval), reserve it, and update the Booking record's range in
  place (identity preserved, not a new id) -- or, if the new interval conflicts,
  roll back to the original state and fail with Conflict". Section 3 speaks of a
  new booking instead; the contract of the operation is followed. The spec has no
  separate case for a booking that is already cancelled, so the steps apply to it
  as they are written, and its status stays cancelled.\<close>

definition alter :: "Engine \<Rightarrow> nat \<Rightarrow> TimeRange \<Rightarrow> error + Booking \<times> Engine" where
  "alter e bid new_range =
     (if \<not> valid_range new_range then Inl ValidationError
      else case find (\<lambda>b. booking_id b = bid) (store e) of
        None \<Rightarrow> Inl NotFoundError
      | Some b \<Rightarrow>
          (let released = release (availability e) (room_ref b) (time_range b) bid
           in case conflicting released (room_ref b) new_range of
                Some entry \<Rightarrow> Inl (Conflict (fst entry))
              | None \<Rightarrow>
                  Inr (b\<lparr>time_range := new_range\<rparr>,
                       e\<lparr>store := map (\<lambda>x. if booking_id x = bid
                                           then x\<lparr>time_range := new_range\<rparr> else x) (store e),
                         availability := reserve released (room_ref b) new_range bid\<rparr>)))"

section \<open>The page and the engine together\<close>

text \<open>Modelled from the spec: the state in which "any sequence of
  book/cancel/alter operations" (section 8) runs: the state of the engine, which
  the back end holds, beside the state of the page.\<close>

record System =
  engine :: Engine
  page :: BookingPage

text \<open>Modelled from the spec: the operations of such a sequence: \<open>book\<close>,
  \<open>cancel\<close> and \<open>alter\<close> with their arguments (section 6), and the events of
  the page.\<close>

datatype operation =
    Book string TimeRange string string
  | Cancel nat
  | Alter nat TimeRange
  | Page event

text \<open>Modelled from the spec: one operation of a sequence. An operation of the
  engine that fails creates no partial state (sections 4.4 and 7): the state is
  as it was. An event of the page, the confirm button and its timer among them,
  changes the page only: \<open>confirmBooking\<close> calls nothing of the engine.\<close>

fun perform :: "System \<Rightarrow> operation \<Rightarrow> System" where
  "perform sys (Book rid rng organizer title') =
     (case book (engine sys) rid rng organizer title' of
        Inl err \<Rightarrow> sys
      | Inr (b, e) \<Rightarrow> sys\<lparr>engine := e\<rparr>)"
| "perform sys (Cancel bid) =
     (case cancel (engine sys) bid of Inl err \<Rightarrow> sys | Inr e \<Rightarrow> sys\<lparr>engine := e\<rparr>)"
| "perform sys (Alter bid new_range) =
     (case alter (engine sys) bid new_range of
        Inl err \<Rightarrow> sys
      | Inr (b, e) \<Rightarrow> sys\<lparr>engine := e\<rparr>)"
| "perform sys (Page ev) = sys\<lparr>page := dispatch (page sys) ev\<rparr>"

text \<open>Modelled from the spec: the state before any operation: a catalogue of
  rooms, no booking, nothing reserved, and the page at its first render.\<close>

definition initial_system :: "Room list \<Rightarrow> System" where
  "initial_system rooms =
     \<lparr>engine = \<lparr>catalog = rooms, store = [], availability = (\<lambda>rid. []),
                next_booking_id = 0\<rparr>,
      page = initialBookingPage\<rparr>"

text \<open>Modelled from the spec: the state after a sequence of operations.\<close>

definition run :: "Room list \<Rightarrow> operation list \<Rightarrow> System" where
  "run rooms ops = foldl perform (initial_system rooms) ops"

text \<open>Modelled from the spec: what the invariant of section 3 excludes: two
  bookings that are both booked, for the same room, with ranges that overlap.\<close>

definition double_booked :: "Booking \<Rightarrow> Booking \<Rightarrow> bool" where
  "double_booked a b \<longleftrightarrow>
     booking_status a = Booked \<and> booking_status b = Booked \<and>
     room_ref a = room_ref b \<and> overlap (time_range a) (time_range b)"

text \<open>Modelled from the spec: what the engine keeps true (section 3): no two
  bookings in the store are double-booked; the index is "kept consistent" with
  the Booking records, so the interval of every booked booking is in the index
  of its room; identifiers are not reused.\<close>

definition engine_inv :: "Engine \<Rightarrow> bool" where
  "engine_inv e \<longleftrightarrow>
     (\<forall>i < length (store e). \<forall>j < length (store e).
        i \<noteq> j \<longrightarrow> \<not> double_booked (store e ! i) (store e ! j)) \<and>
     (\<forall>b \<in> set (store e). booking_status b = Booked \<longrightarrow>
        (booking_id b, time_range b) \<in> set (availability e (room_ref b))) \<and>
     distinct (map booking_id (store e)) \<and>
     (\<forall>b \<in> set (store e). booking_id b < next_booking_id e)"

text \<open>
  An execution to try the engine on: room A301 is booked from 09:00 to 10:00; on
  the page a title is typed, the booking is confirmed and the timer runs out,
  which reaches no engine; a request for 09:30 to 10:30 conflicts; a request for
  10:00 to 11:00 succeeds; moving the first booking to 09:50 to 10:50 conflicts
  with the second, and succeeds once the second is cancelled; a last request
  starts when the moved booking ends.
\<close>

definition example_rooms :: "Room list" where
  "example_rooms =
     [\<lparr>room_identifier = ''A301'', display_name = ''A301'', building = ''A'',
       floor_number = 3, seats = 12, capability_tags = [''video'', ''whiteboard''],
       lifecycle = Active\<rparr>]"

definition example_operations :: "operation list" where
  "example_operations =
     [Book ''A301'' \<lparr>start = 540, end' = 600\<rparr> ''u1'' ''standup'',
      Page (SetTitle (ascii ''standup'')),
      Page Confirm,
      Page (Timer BookingDone),
      Book ''A301'' \<lparr>start = 570, end' = 630\<rparr> ''u2'' ''review'',
      Book ''A301'' \<lparr>start = 600, end' = 660\<rparr> ''u2'' ''review'',
      Alter 0 \<lparr>start = 590, end' = 650\<rparr>,
      Cancel 1,
      Alter 0 \<lparr>start = 590, end' = 650\<rparr>,
      Book ''A301'' \<lparr>start = 650, end' = 700\<rparr> ''u3'' ''retro'']"

section \<open>Properties\<close>

subsection \<open>Strings and numbers\<close>

lemma ascii_inject: "ascii s = ascii t \<longleftrightarrow> s = t"
proof -
  have "inj (\<lambda>c::char. (of_nat (of_char c) :: 16 word))"
  proof (rule injI)
    fix x y :: char
    assume eq: "(of_nat (of_char x) :: 16 word) = of_nat (of_char y)"
    have bx: "(of_char x :: nat) < 2 ^ 16"
      by (rule less_trans [where y = 256]) (simp_all add: of_char_def)
    have b_y: "(of_char y :: nat) < 2 ^ 16"
      by (rule less_trans [where y = 256]) (simp_all add: of_char_def)
    from eq have "unat (of_nat (of_char x) :: 16 word) = unat (of_nat (of_char y) :: 16 word)"
      by simp
    with bx b_y have "(of_char x :: nat) = of_char y"
      by (simp add: unat_of_nat)
    then show "x = y"
      by simp
  qed
  then show ?thesis
    by (simp add: ascii_def)
qed

lemma colours_distinct:
  "ascii ''bg-green-500'' \<noteq> ascii ''bg-yellow-500''"
  "ascii ''bg-green-500'' \<noteq> ascii ''bg-red-500''"
  "ascii ''bg-yellow-500'' \<noteq> ascii ''bg-red-500''"
  by (simp_all add: ascii_inject)

text \<open>
  Each of the four constants is a double of the binade from \<open>1/2\<close> to \<open>1\<close>, a
  whole multiple of \<open>2^-53\<close>, and lies within half a unit in the last place of
  its decimal: it is the double the literal denotes. The double \<open>0.7\<close> is below
  \<open>7/10\<close>, the other three are above their decimals.
\<close>

lemma double_0_7_nearest:
  "double_0_7 = 6305039478318694 / 2 ^ 53 \<and> \<bar>double_0_7 - 7 / 10\<bar> < 1 / 2 ^ 54 \<and>
   double_0_7 < 7 / 10"
  by (simp add: double_0_7_def)

lemma double_0_9_nearest:
  "double_0_9 = 8106479329266893 / 2 ^ 53 \<and> \<bar>double_0_9 - 9 / 10\<bar> < 1 / 2 ^ 54 \<and>
   9 / 10 < double_0_9"
  by (simp add: double_0_9_def)

lemma double_0_92_nearest:
  "double_0_92 = 8286623314361713 / 2 ^ 53 \<and> \<bar>double_0_92 - 92 / 100\<bar> < 1 / 2 ^ 54 \<and>
   92 / 100 < double_0_92"
  by (simp add: double_0_92_def)

lemma double_0_88_nearest:
  "double_0_88 = 7926335344172073 / 2 ^ 53 \<and> \<bar>double_0_88 - 88 / 100\<bar> < 1 / 2 ^ 54 \<and>
   88 / 100 < double_0_88"
  by (simp add: double_0_88_def)

lemma double_thresholds_order: "double_0_7 < double_0_9"
  by (simp add: double_0_7_def double_0_9_def)

subsection \<open>getMatchScoreColor\<close>

text \<open>
  The comparisons of the function are with the doubles \<open>0.7\<close> and \<open>0.9\<close>. At the
  double \<open>0.7\<close> itself, which is below \<open>7/10\<close>, the colour is yellow; at the
  double \<open>0.9\<close> it is green.
\<close>

lemma getMatchScoreColor_at_thresholds:
  "getMatchScoreColor (Num double_0_7) = ascii ''bg-yellow-500'' \<and>
   getMatchScoreColor (Num double_0_9) = ascii ''bg-green-500''"
  by (simp add: getMatchScoreColor_def double_0_7_def double_0_9_def)

text \<open>
  C8, as stated: for every score \<open>s\<close> the colour is green exactly when
  \<open>s >= 0.9\<close>, yellow exactly when \<open>0.7 <= s < 0.9\<close> and red exactly when
  \<open>s < 0.7\<close>, the comparisons and the literals being those of the source. The
  third equivalence fails at \<open>NaN\<close>: both tests of the function are false there,
  so the colour is red, while \<open>NaN < 0.7\<close> is false as well.
\<close>

theorem getMatchScoreColor_NaN_counterexample:
  "getMatchScoreColor NaN = ascii ''bg-red-500'' \<and> \<not> num_lt NaN (Num double_0_7)"
  by (simp add: getMatchScoreColor_def num_lt_def)

text \<open>
  C8, amended: for every score \<open>s\<close> the colour is green exactly when \<open>s >= 0.9\<close>,
  yellow exactly when \<open>0.7 <= s < 0.9\<close>, and red exactly when \<open>s < 0.7\<close> or \<open>s\<close>
  is \<open>NaN\<close>; \<open>0.7\<close> and \<open>0.9\<close> are the doubles that the literals denote, and the
  comparisons are those of the source.
\<close>

theorem getMatchScoreColor_thresholds:
  "(getMatchScoreColor s = ascii ''bg-green-500'' \<longleftrightarrow> num_ge s (Num double_0_9)) \<and>
   (getMatchScoreColor s = ascii ''bg-yellow-500'' \<longleftrightarrow>
      num_le (Num double_0_7) s \<and> num_lt s (Num double_0_9)) \<and>
   (getMatchScoreColor s = ascii ''bg-red-500'' \<longleftrightarrow>
      num_lt s (Num double_0_7) \<or> s = NaN)"
proof (cases s)
  case (Num a)
  then show ?thesis
    using colours_distinct double_thresholds_order
    by (auto simp add: getMatchScoreColor_def num_le_def num_lt_def)
next
  case NaN
  then show ?thesis
    using colours_distinct
    by (simp add: getMatchScoreColor_def num_le_def num_lt_def)
next
  case PosInf
  then show ?thesis
    using colours_distinct
    by (simp add: getMatchScoreColor_def num_le_def num_lt_def)
next
  case NegInf
  then show ?thesis
    using colours_distinct
    by (simp add: getMatchScoreColor_def num_le_def num_lt_def)
qed

theorem getMatchScoreColor_thresholds_witness:
  "getMatchScoreColor (Num double_0_92) = ascii ''bg-green-500'' \<and>
   getMatchScoreColor (Num 0.75) = ascii ''bg-yellow-500'' \<and>
   num_le (Num double_0_7) (Num 0.75) \<and> num_lt (Num 0.75) (Num double_0_9) \<and>
   getMatchScoreColor (Num 0.5) = ascii ''bg-red-500'' \<and>
   getMatchScoreColor (Num double_0_7) = ascii ''bg-yellow-500'' \<and>
   getMatchScoreColor (Num double_0_9) = ascii ''bg-green-500''"
  using getMatchScoreColor_thresholds [of "Num double_0_92"]
    getMatchScoreColor_thresholds [of "Num 0.75"]
    getMatchScoreColor_thresholds [of "Num 0.5"]
    getMatchScoreColor_thresholds [of "Num double_0_7"]
    getMatchScoreColor_thresholds [of "Num double_0_9"]
  by (simp add: num_le_def num_lt_def double_0_7_def double_0_9_def double_0_92_def)

subsection \<open>trim\<close>

lemma all_dropWhile_iff: "(\<forall>x\<in>set (dropWhile P xs). P x) \<longleftrightarrow> (\<forall>x\<in>set xs. P x)"
  by (induction xs) auto

text \<open>The trimmed string is empty exactly when every code unit is white space.\<close>

lemma trim_Nil_iff: "trim s = [] \<longleftrightarrow> (\<forall>c\<in>set s. isWhiteSpace c)"
proof -
  have "trim s = [] \<longleftrightarrow> (\<forall>c\<in>set (rev (dropWhile isWhiteSpace s)). isWhiteSpace c)"
    unfolding trim_def by (simp only: rev_is_Nil_conv dropWhile_eq_Nil_conv)
  also have "\<dots> \<longleftrightarrow> (\<forall>c\<in>set s. isWhiteSpace c)"
    by (simp only: set_rev all_dropWhile_iff)
  finally show ?thesis .
qed

lemma trim_sample_request: "trim (ascii ''10 people, building A, video'') \<noteq> []"
  by (simp add: trim_Nil_iff ascii_def isWhiteSpace_def)

lemma trim_blank_request: "trim (ascii ''   '') = []"
  by (simp add: trim_Nil_iff ascii_def isWhiteSpace_def)

subsection \<open>handleSubmit\<close>

lemma settled_handleSubmit_blank:
  "trim (inputText s) = [] \<Longrightarrow>
   settled handleSubmit s =
     (s, [Toast_error [0x8BF7, 0x8F93, 0x5165, 0x4F1A, 0x8BAE, 0x9700, 0x6C42]])"
  by (simp add: settled_def handleSubmit_def truthy_def)

lemma settled_handleSubmit_accepted:
  "trim (inputText s) \<noteq> [] \<Longrightarrow>
   fst (settled handleSubmit s) =
     s\<lparr>isProcessing := False, intent := Some mockIntent,
       recommendations := mockRecommendations\<rparr>"
  by (simp add: settled_def handleSubmit_def truthy_def)

lemma recommend_eq:
  "recommend s = (if trim (inputText s) = [] then recommendations s else mockRecommendations)"
  by (simp add: recommend_def settled_handleSubmit_blank settled_handleSubmit_accepted)

text \<open>
  C2, as stated: for every request the recommendations are sorted by descending
  match score, ties by ascending room identifier. The list is the mock list in the
  order it is written, A301 (0.92), A305 (0.75), B201 (0.88): the second score is
  below the third.
\<close>

theorem recommend_not_ranked_counterexample:
  "\<not> sorted_wrt ranked_before
       (recommend (initialBookingPage\<lparr>inputText := ascii ''10 people, building A, video''\<rparr>))"
  by (simp add: recommend_eq trim_sample_request mockRecommendations_def ranked_before_def
      num_eq_def double_0_92_def double_0_88_def)

text \<open>
  C2, amended: for every request that \<open>handleSubmit\<close> accepts (an input text that is
  not blank), the recommendations are the three rooms of the mock list in ascending
  order of room identifier, A301, A305, B201, with the scores 0.92, 0.75, 0.88.
\<close>

theorem recommend_room_id_order:
  assumes "truthy (trim (inputText s))"
  shows "sorted_wrt (\<lambda>a b. room_id a < room_id b) (recommend s) \<and>
         map room_id (recommend s) = [ascii ''A301'', ascii ''A305'', ascii ''B201''] \<and>
         map match_score (recommend s) = [Num double_0_92, Num 0.75, Num double_0_88]"
proof -
  from assms have "trim (inputText s) \<noteq> []"
    by (simp add: truthy_def)
  then show ?thesis
    by (simp add: recommend_eq mockRecommendations_def ascii_def)
qed

theorem recommend_room_id_order_witness:
  "truthy (trim (inputText
     (initialBookingPage\<lparr>inputText := ascii ''10 people, building A, video''\<rparr>))) \<and>
   map room_id
     (recommend (initialBookingPage\<lparr>inputText := ascii ''10 people, building A, video''\<rparr>)) =
     [ascii ''A301'', ascii ''A305'', ascii ''B201'']"
  using recommend_room_id_order
    [of "initialBookingPage\<lparr>inputText := ascii ''10 people, building A, video''\<rparr>"]
  by (simp add: truthy_def trim_sample_request)

text \<open>
  C3 (Scenario A): whatever text is submitted, as long as it is not blank, the
  intent that is recognised is the request of the scenario (15:00, 10
  participants, building A, video conference), and the recommendations contain
  room A301 with capacity 12, video conference and whiteboard among its
  equipment, a match score greater than 0.9, as a decimal and as the double of
  the literal, and an empty deviation list.
\<close>

theorem scenario_A:
  assumes "truthy (trim (inputText s))"
  shows "intent (fst (settled handleSubmit s)) =
           Some \<lparr>datetime = ascii ''2025-01-15T15:00:00'', participants = Num 10,
                 location = building_A, requirements = [video_conference]\<rparr> \<and>
         (\<exists>r \<in> set (recommend s).
            room_id r = ascii ''A301'' \<and> capacity r = Num 12 \<and>
            {video_conference, whiteboard} \<subseteq> set (equipment r) \<and>
            num_gt (match_score r) (Num 0.9) \<and> num_gt (match_score r) (Num double_0_9) \<and>
            deviation r = [])"
proof -
  from assms have "trim (inputText s) \<noteq> []"
    by (simp add: truthy_def)
  then show ?thesis
    by (simp add: recommend_eq settled_handleSubmit_accepted mockIntent_def
        mockRecommendations_def double_0_92_def double_0_9_def)
qed

theorem scenario_A_witness:
  "truthy (trim (inputText
     (initialBookingPage\<lparr>inputText := ascii ''10 people, building A, video''\<rparr>))) \<and>
   room_id (hd (recommend
     (initialBookingPage\<lparr>inputText := ascii ''10 people, building A, video''\<rparr>))) =
     ascii ''A301'' \<and>
   match_score (hd (recommend
     (initialBookingPage\<lparr>inputText := ascii ''10 people, building A, video''\<rparr>))) =
     Num double_0_92 \<and>
   num_gt (Num double_0_92) (Num 0.9) \<and> num_gt (Num double_0_92) (Num double_0_9)"
  using scenario_A
    [of "initialBookingPage\<lparr>inputText := ascii ''10 people, building A, video''\<rparr>"]
  by (simp add: truthy_def trim_sample_request recommend_eq mockRecommendations_def
      double_0_92_def double_0_9_def)

subsection \<open>The recommendations of the reachable states\<close>

lemma recommendations_dispatch:
  assumes "recommendations s = [] \<or> recommendations s = mockRecommendations"
  shows "recommendations (dispatch s ev) = [] \<or>
         recommendations (dispatch s ev) = mockRecommendations"
proof (cases ev)
  case (Timer cb)
  with assms show ?thesis by (cases cb) simp_all
qed (use assms in \<open>auto simp add: handleSubmit_def handleBookRoom_def confirmBooking_def\<close>)

lemma recommendations_foldl:
  "recommendations s = [] \<or> recommendations s = mockRecommendations \<Longrightarrow>
   recommendations (foldl dispatch s evs) = [] \<or>
   recommendations (foldl dispatch s evs) = mockRecommendations"
proof (induction evs arbitrary: s)
  case Nil
  then show ?case by simp
next
  case (Cons ev evs)
  from Cons.prems have "recommendations (dispatch s ev) = [] \<or>
    recommendations (dispatch s ev) = mockRecommendations"
    by (rule recommendations_dispatch)
  then show ?case
    using Cons.IH [of "dispatch s ev"] by simp
qed

lemma recommendations_run_events:
  "recommendations (run_events evs) = [] \<or>
   recommendations (run_events evs) = mockRecommendations"
  unfolding run_events_def
  by (rule recommendations_foldl) (simp add: initialBookingPage_def)

lemma mock_scores_bounded:
  "\<forall>r \<in> set mockRecommendations.
     num_le (Num 0) (match_score r) \<and> num_le (match_score r) (Num 1)"
  by (simp add: mockRecommendations_def num_le_def double_0_92_def double_0_88_def)

text \<open>
  C4: in every state the page reaches, every recommendation that a request
  produces, and every recommendation the state holds, has a match score \<open>m\<close> with
  \<open>0 <= m <= 1\<close>.
\<close>

theorem match_score_bounded:
  "(\<forall>r \<in> set (recommend (run_events evs)).
      num_le (Num 0) (match_score r) \<and> num_le (match_score r) (Num 1)) \<and>
   (\<forall>r \<in> set (recommendations (run_events evs)).
      num_le (Num 0) (match_score r) \<and> num_le (match_score r) (Num 1))"
  using recommendations_run_events [of evs] mock_scores_bounded
  by (auto simp add: recommend_eq)

theorem match_score_bounded_witness:
  "map match_score (recommendations (run_events
      [SetInputText (ascii ''10 people, building A, video''), Submit, Timer SubmitDone])) =
     [Num double_0_92, Num 0.75, Num double_0_88] \<and>
   num_le (Num 0) (Num double_0_88) \<and> num_le (Num double_0_88) (Num 1)"
  using match_score_bounded
    [of "[SetInputText (ascii ''10 people, building A, video''), Submit, Timer SubmitDone]"]
  by (simp add: run_events_def initialBookingPage_def handleSubmit_def truthy_def
      trim_sample_request mockRecommendations_def num_le_def double_0_88_def)

text \<open>
  C5: two calls with the same request, a text that \<open>handleSubmit\<close> accepts, return
  the same list of recommendations: same rooms, same order, same scores. The two
  states need agree on nothing but the text; in particular a second call that
  follows the first, and so starts with the list the first call left, returns
  what the first returned.
\<close>

theorem recommend_deterministic:
  assumes "inputText s1 = inputText s2" and "truthy (trim (inputText s1))"
  shows "recommend s1 = recommend s2 \<and>
         recommend (fst (settled handleSubmit s1)) = recommend s1"
proof -
  from assms have accepted: "trim (inputText s1) \<noteq> []" "trim (inputText s2) \<noteq> []"
    by (simp_all add: truthy_def)
  then have "inputText (fst (settled handleSubmit s1)) = inputText s1"
    by (simp add: settled_handleSubmit_accepted)
  with accepted show ?thesis
    by (simp add: recommend_eq)
qed

theorem recommend_deterministic_witness:
  "recommendations (initialBookingPage\<lparr>inputText := ascii ''10 people, building A, video''\<rparr>)
     = [] \<and>
   recommendations (fst (settled handleSubmit
     (initialBookingPage\<lparr>inputText := ascii ''10 people, building A, video''\<rparr>)))
     = mockRecommendations \<and>
   recommend (initialBookingPage\<lparr>inputText := ascii ''10 people, building A, video''\<rparr>) =
   recommend (fst (settled handleSubmit
     (initialBookingPage\<lparr>inputText := ascii ''10 people, building A, video''\<rparr>)))"
proof -
  let ?s = "initialBookingPage\<lparr>inputText := ascii ''10 people, building A, video''\<rparr>"
  have accepted: "truthy (trim (inputText ?s))"
    by (simp add: truthy_def trim_sample_request)
  then have nonblank: "trim (inputText ?s) \<noteq> []"
    by (simp add: truthy_def)
  have after: "fst (settled handleSubmit ?s) =
      ?s\<lparr>isProcessing := False, intent := Some mockIntent,
         recommendations := mockRecommendations\<rparr>"
    using nonblank by (rule settled_handleSubmit_accepted)
  have same_text: "inputText ?s = inputText (fst (settled handleSubmit ?s))"
    by (simp only: after) simp
  have first: "recommendations ?s = []"
    by (simp add: initialBookingPage_def)
  have second: "recommendations (fst (settled handleSubmit ?s)) = mockRecommendations"
    by (simp only: after) simp
  from recommend_deterministic [OF same_text accepted]
  have "recommend ?s = recommend (fst (settled handleSubmit ?s))"
    by (rule conjunct1)
  with first second show ?thesis
    by (intro conjI)
qed

text \<open>
  C7: when the input text is empty or consists of white space only,
  \<open>handleSubmit\<close> raises the error toast and returns: no timer is set, so no
  recommendations are produced, and the state, with its intent and its
  recommendations, is the state before the call. The error toast is what the page
  has for a validation error.
\<close>

theorem handleSubmit_blank_rejected:
  assumes "\<forall>c\<in>set (inputText s). isWhiteSpace c"
  shows "(\<exists>msg. handleSubmit s = (s, [Toast_error msg]) \<and>
                settled handleSubmit s = (s, [Toast_error msg])) \<and>
         intent (fst (settled handleSubmit s)) = intent s \<and>
         recommendations (fst (settled handleSubmit s)) = recommendations s \<and>
         recommend s = recommendations s"
  using assms
  by (simp add: settled_handleSubmit_blank trim_Nil_iff handleSubmit_def truthy_def
      recommend_eq)

theorem handleSubmit_blank_rejected_witness:
  "settled handleSubmit (initialBookingPage\<lparr>inputText := ascii ''   ''\<rparr>) =
     (initialBookingPage\<lparr>inputText := ascii ''   ''\<rparr>,
      [Toast_error [0x8BF7, 0x8F93, 0x5165, 0x4F1A, 0x8BAE, 0x9700, 0x6C42]]) \<and>
   recommend (initialBookingPage\<lparr>inputText := ascii ''   ''\<rparr>) = []"
  using handleSubmit_blank_rejected [of "initialBookingPage\<lparr>inputText := ascii ''   ''\<rparr>"]
  by (simp add: settled_handleSubmit_blank trim_blank_request trim_Nil_iff [symmetric]
      initialBookingPage_def)

subsection \<open>The status enumerations\<close>

text \<open>
  C6, as stated: every room carries a status from \<open>{active, retired}\<close>. The type
  of \<open>MeetingRoom.status\<close> is \<open>'available' | 'booked'\<close>: a room that is available
  has a status outside the claimed set.
\<close>

theorem room_status_counterexample:
  "literal_of_MeetingRoom_status (MeetingRoom.status
      \<lparr>MeetingRoom.id' = ascii ''r1'', name = ascii ''A301'', location = building_A,
       capacity = Num 12, equipment = [video_conference, whiteboard],
       status = Room_available,
       created_at = ascii ''2025-01-01T00:00:00Z'',
       updated_at = ascii ''2025-01-01T00:00:00Z''\<rparr>)
     \<notin> {ascii ''active'', ascii ''retired''}"
  by (simp add: ascii_inject)

text \<open>
  C6, amended: every room carries a status drawn from the closed enumeration
  \<open>{available, booked}\<close>, and every booking (a \<open>Meeting\<close>) a status drawn from the
  closed enumeration \<open>{booked, cancelled}\<close>.
\<close>

theorem status_enumerations:
  "literal_of_MeetingRoom_status (MeetingRoom.status r) \<in>
     {ascii ''available'', ascii ''booked''} \<and>
   literal_of_Meeting_status (Meeting.status m) \<in> {ascii ''booked'', ascii ''cancelled''}"
  by (cases "MeetingRoom.status r"; cases "Meeting.status m") simp_all

subsection \<open>updateTaskStatus\<close>

text \<open>
  C9: \<open>updateTaskStatus\<close> keeps the length and the order of the task list; at
  every position the identifier, description, owner, department and due date are
  those of the task before; a task whose identifier is the given one gets the new
  status, any other task is unchanged; and when no task has the given identifier
  the list is unchanged.
\<close>

theorem updateTaskStatus_frame:
  "(let ts = tasks s; ts' = tasks (fst (updateTaskStatus taskId newStatus s)) in
    length ts' = length ts \<and>
    (\<forall>i < length ts.
       Task.id' (ts' ! i) = Task.id' (ts ! i) \<and>
       Task.description (ts' ! i) = Task.description (ts ! i) \<and>
       Task.owner (ts' ! i) = Task.owner (ts ! i) \<and>
       Task.department (ts' ! i) = Task.department (ts ! i) \<and>
       Task.due_date (ts' ! i) = Task.due_date (ts ! i) \<and>
       (Task.id' (ts ! i) = taskId \<longrightarrow> Task.status (ts' ! i) = newStatus) \<and>
       (Task.id' (ts ! i) \<noteq> taskId \<longrightarrow> ts' ! i = ts ! i)) \<and>
    ((\<forall>t \<in> set ts. Task.id' t \<noteq> taskId) \<longrightarrow> ts' = ts))"
proof -
  have "map (\<lambda>task. if Task.id' task = taskId
                     then task\<lparr>Task.status := newStatus\<rparr> else task) (tasks s) = tasks s"
    if "\<forall>t \<in> set (tasks s). Task.id' t \<noteq> taskId"
    using that by (simp add: map_idI)
  then show ?thesis
    by (simp add: updateTaskStatus_def Let_def)
qed

theorem updateTaskStatus_frame_witness:
  "tasks (fst (updateTaskStatus (ascii ''7'') Done initialTasksPage)) = mockTasks \<and>
   map Task.status (tasks (fst (updateTaskStatus (ascii ''2'') Done initialTasksPage))) =
     [Confirmed, Done, Draft, Done, Confirmed] \<and>
   tasks (fst (updateTaskStatus (ascii ''2'') Done initialTasksPage)) ! 2 = mockTasks ! 2"
  using updateTaskStatus_frame [of initialTasksPage "ascii ''7''" Done]
    updateTaskStatus_frame [of initialTasksPage "ascii ''2''" Done]
  by (simp add: Let_def initialTasksPage_def mockTasks_def ascii_def updateTaskStatus_def)

subsection \<open>handleAddUser\<close>

lemma toString_example: "toString 1736900000000 = ascii ''1736900000000''"
  by (simp add: toString_def ascii_def)

text \<open>
  C10: when the username or the department of the new user is empty,
  \<open>handleAddUser\<close> raises the error toast and leaves the whole state, and with it
  the list of users, as it was; otherwise the list of users is the old list with
  one user appended, who has the username, the role and the department given.
\<close>

theorem handleAddUser_atomic:
  "(NewUser.username (newUser s) = [] \<or> NewUser.department (newUser s) = [] \<longrightarrow>
      (\<exists>msg. handleAddUser now s = (s, [Toast_error msg]))) \<and>
   (NewUser.username (newUser s) \<noteq> [] \<and> NewUser.department (newUser s) \<noteq> [] \<longrightarrow>
      (\<exists>u. users (fst (handleAddUser now s)) = users s @ [u] \<and>
           User.username u = NewUser.username (newUser s) \<and>
           User.role u = NewUser.role (newUser s) \<and>
           User.department u = NewUser.department (newUser s)))"
  by (simp add: handleAddUser_def truthy_def)

theorem handleAddUser_atomic_witness:
  "handleAddUser 1736900000000 initialSettingsPage =
     (initialSettingsPage, [Toast_error [0x8BF7, 0x586B, 0x5199, 0x5B8C, 0x6574, 0x4FE1, 0x606F]]) \<and>
   users (fst (handleAddUser 1736900000000
     (initialSettingsPage\<lparr>newUser := \<lparr>NewUser.username = ascii ''zhao'', role = Organizer,
                                       department = ascii ''QA''\<rparr>\<rparr>))) =
     mockUsers @ [\<lparr>User.id' = ascii ''1736900000000'', username = ascii ''zhao'',
                   role = Organizer, department = ascii ''QA''\<rparr>]"
  using handleAddUser_atomic [of initialSettingsPage 1736900000000]
    handleAddUser_atomic
      [of "initialSettingsPage\<lparr>newUser := \<lparr>NewUser.username = ascii ''zhao'', role = Organizer,
                                            department = ascii ''QA''\<rparr>\<rparr>" 1736900000000]
  by (simp add: handleAddUser_def truthy_def initialSettingsPage_def toString_example)
     (simp add: ascii_def)

subsection \<open>The booking engine keeps its invariant\<close>

lemma overlap_sym: "overlap a b \<longleftrightarrow> overlap b a"
  by (auto simp add: overlap_def)

lemma double_booked_sym: "double_booked a b \<longleftrightarrow> double_booked b a"
  by (auto simp add: double_booked_def overlap_sym)

lemma conflicting_None_iff:
  "conflicting idx rid rng = None \<longleftrightarrow> (\<forall>entry \<in> set (idx rid). \<not> overlap (snd entry) rng)"
  by (auto simp add: conflicting_def find_None_iff)

lemma isFree_iff:
  "isFree idx rid rng \<longleftrightarrow> (\<forall>entry \<in> set (idx rid). \<not> overlap (snd entry) rng)"
  by (simp add: isFree_def conflicting_None_iff)

lemma find_SomeD: "find P xs = Some x \<Longrightarrow> x \<in> set xs \<and> P x"
  by (induction xs) (auto split: if_splits)

lemma same_id_same_booking:
  assumes "distinct (map booking_id bs)" "x \<in> set bs" "y \<in> set bs" "booking_id x = booking_id y"
  shows "x = y"
  using assms by (meson distinct_map inj_onD)

lemma engine_inv_initial: "engine_inv (engine (initial_system rooms))"
  by (simp add: engine_inv_def initial_system_def)

lemma book_inv:
  assumes inv: "engine_inv e" and ok: "book e rid rng organizer title' = Inr (b, e')"
  shows "engine_inv e'"
proof -
  from ok have free: "conflicting (availability e) rid rng = None"
    by (auto simp add: book_def split: if_splits sum.splits option.splits)
  define nb where "nb = \<lparr>booking_id = next_booking_id e, room_ref = rid,
                         organizer_ref = organizer, booking_title = title',
                         time_range = rng, booking_status = Booked\<rparr>"
  from ok have e': "e' = e\<lparr>store := store e @ [nb],
                           availability := reserve (availability e) rid rng (next_booking_id e),
                           next_booking_id := Suc (next_booking_id e)\<rparr>"
    by (auto simp add: book_def nb_def Let_def split: if_splits sum.splits option.splits)
  have new_free: "\<not> double_booked x nb" if "x \<in> set (store e)" for x
  proof
    assume db: "double_booked x nb"
    then have "booking_status x = Booked" "room_ref x = rid" "overlap (time_range x) rng"
      by (simp_all add: double_booked_def nb_def)
    with inv that have "(booking_id x, time_range x) \<in> set (availability e rid)"
      by (auto simp add: engine_inv_def)
    with free have "\<not> overlap (time_range x) rng"
      by (auto simp add: conflicting_None_iff)
    with \<open>overlap (time_range x) rng\<close> show False by simp
  qed
  have pairs: "\<not> double_booked ((store e @ [nb]) ! i) ((store e @ [nb]) ! j)"
    if "i < length (store e @ [nb])" "j < length (store e @ [nb])" "i \<noteq> j" for i j
  proof (cases "i < length (store e)"; cases "j < length (store e)")
    assume "i < length (store e)" "j < length (store e)"
    with inv that show ?thesis
      by (simp add: engine_inv_def nth_append)
  next
    assume ij: "i < length (store e)" "\<not> j < length (store e)"
    with that have "j = length (store e)" by simp
    with ij new_free [of "store e ! i"] show ?thesis
      by (simp add: nth_append)
  next
    assume ij: "\<not> i < length (store e)" "j < length (store e)"
    with that have "i = length (store e)" by simp
    with ij new_free [of "store e ! j"] show ?thesis
      by (simp add: nth_append double_booked_sym [of nb])
  next
    assume "\<not> i < length (store e)" "\<not> j < length (store e)"
    with that show ?thesis by simp
  qed
  have idx: "(booking_id x, time_range x) \<in> set (availability e' (room_ref x))"
    if "x \<in> set (store e')" "booking_status x = Booked" for x
    using that inv by (auto simp add: e' reserve_def engine_inv_def nb_def)
  have ids: "distinct (map booking_id (store e'))" "\<forall>x \<in> set (store e'). booking_id x < next_booking_id e'"
    using inv by (auto simp add: e' engine_inv_def nb_def)
  from pairs idx ids show ?thesis
    unfolding engine_inv_def by (simp add: e')
qed


lemma cancel_inv:
  assumes inv: "engine_inv e" and ok: "cancel e bid = Inr e'"
  shows "engine_inv e'"
proof -
  from ok obtain b where found: "find (\<lambda>b. booking_id b = bid) (store e) = Some b"
    by (auto simp add: cancel_def split: option.splits)
  show ?thesis
  proof (cases "booking_status b = Cancelled")
    case True
    with ok found inv show ?thesis by (simp add: cancel_def)
  next
    case False
    define f :: "Booking \<Rightarrow> Booking"
      where "f = (\<lambda>x. if booking_id x = bid then x\<lparr>booking_status := Cancelled\<rparr> else x)"
    from ok found False
    have e': "e' = e\<lparr>store := map f (store e),
                     availability := release (availability e) (room_ref b) (time_range b) bid\<rparr>"
      by (simp add: cancel_def f_def)
    have weaker: "double_booked (f x) (f y) \<Longrightarrow> double_booked x y" for x y
      by (auto simp add: double_booked_def f_def split: if_splits)
    have pairs: "\<not> double_booked (map f (store e) ! i) (map f (store e) ! j)"
      if "i < length (store e)" "j < length (store e)" "i \<noteq> j" for i j
      using that inv weaker [of "store e ! i" "store e ! j"]
      by (auto simp add: engine_inv_def)
    have idx: "(booking_id y, time_range y) \<in> set (availability e' (room_ref y))"
      if "y \<in> set (store e')" "booking_status y = Booked" for y
    proof -
      from that obtain x where x: "x \<in> set (store e)" "y = f x"
        by (auto simp add: e')
      with that have "booking_id x \<noteq> bid" "y = x"
        by (auto simp add: f_def split: if_splits)
      with x that inv show ?thesis
        by (auto simp add: e' release_def engine_inv_def)
    qed
    have id_f: "booking_id (f x) = booking_id x" for x
      by (simp add: f_def)
    then have ids_eq: "map booking_id (map f (store e)) = map booking_id (store e)"
      by (simp add: comp_def)
    with inv have ids: "distinct (map booking_id (store e'))"
      "\<forall>x \<in> set (store e'). booking_id x < next_booking_id e'"
      by (auto simp add: e' engine_inv_def id_f simp del: map_map)
    from pairs idx ids show ?thesis
      unfolding engine_inv_def by (simp add: e')
  qed
qed

lemma alter_inv:
  assumes inv: "engine_inv e" and ok: "alter e bid new_range = Inr (b', e')"
  shows "engine_inv e'"
proof -
  from ok obtain b where found: "find (\<lambda>b. booking_id b = bid) (store e) = Some b"
    by (auto simp add: alter_def split: if_splits option.splits)
  then have b: "b \<in> set (store e)" "booking_id b = bid"
    by (auto dest: find_SomeD)
  define released where "released = release (availability e) (room_ref b) (time_range b) bid"
  define f :: "Booking \<Rightarrow> Booking"
    where "f = (\<lambda>x. if booking_id x = bid then x\<lparr>time_range := new_range\<rparr> else x)"
  from ok found have free: "conflicting released (room_ref b) new_range = None"
    by (auto simp add: alter_def released_def Let_def split: if_splits option.splits)
  from ok found
  have e': "e' = e\<lparr>store := map f (store e),
                   availability := reserve released (room_ref b) new_range bid\<rparr>"
    by (auto simp add: alter_def released_def f_def Let_def split: if_splits option.splits)
  from inv have dist: "distinct (map booking_id (store e))"
    by (simp add: engine_inv_def)
  have the_one: "x = b" if "x \<in> set (store e)" "booking_id x = bid" for x
    using same_id_same_booking [OF dist that(1) b(1)] that(2) b(2) by simp
  have kept: "(booking_id x, time_range x) \<in> set (released (room_ref x))"
    if "x \<in> set (store e)" "booking_status x = Booked" "booking_id x \<noteq> bid" for x
    using that inv by (auto simp add: released_def release_def engine_inv_def)
  have moved: "\<not> double_booked (f x) (f y)"
    if "x \<in> set (store e)" "y \<in> set (store e)" "booking_id x = bid" "booking_id y \<noteq> bid" for x y
  proof
    assume db: "double_booked (f x) (f y)"
    from that have "x = b" by (simp add: the_one)
    with db that have y: "booking_status y = Booked" "room_ref y = room_ref b"
      "overlap new_range (time_range y)"
      by (auto simp add: double_booked_def f_def)
    with that kept [of y] have "(booking_id y, time_range y) \<in> set (released (room_ref b))"
      by simp
    with free have "\<not> overlap (time_range y) new_range"
      by (auto simp add: conflicting_None_iff)
    with y show False by (simp add: overlap_sym)
  qed
  have pairs: "\<not> double_booked (map f (store e) ! i) (map f (store e) ! j)"
    if ij: "i < length (store e)" "j < length (store e)" "i \<noteq> j" for i j
  proof -
    let ?x = "store e ! i" and ?y = "store e ! j"
    from ij have mem: "?x \<in> set (store e)" "?y \<in> set (store e)" by simp_all
    from ij dist have ne: "booking_id ?x \<noteq> booking_id ?y"
      by (simp add: nth_eq_iff_index_eq [of "map booking_id (store e)" i j, simplified] )
    consider "booking_id ?x = bid" "booking_id ?y \<noteq> bid"
      | "booking_id ?x \<noteq> bid" "booking_id ?y = bid"
      | "booking_id ?x \<noteq> bid" "booking_id ?y \<noteq> bid"
      using ne by auto
    then have "\<not> double_booked (f ?x) (f ?y)"
    proof cases
      case 1
      with mem show ?thesis by (simp add: moved)
    next
      case 2
      with mem show ?thesis by (simp add: moved double_booked_sym [of "f ?x"])
    next
      case 3
      with inv ij show ?thesis by (simp add: f_def engine_inv_def)
    qed
    with ij show ?thesis by simp
  qed
  have idx: "(booking_id y, time_range y) \<in> set (availability e' (room_ref y))"
    if "y \<in> set (store e')" "booking_status y = Booked" for y
  proof -
    from that obtain x where x: "x \<in> set (store e)" "y = f x"
      by (auto simp add: e')
    show ?thesis
    proof (cases "booking_id x = bid")
      case True
      with x have "x = b" by (simp add: the_one)
      with x True b show ?thesis
        by (simp add: e' f_def reserve_def)
    next
      case False
      with x that have "y = x" "booking_status x = Booked" by (simp_all add: f_def)
      with x False kept [of x] show ?thesis
        by (auto simp add: e' reserve_def)
    qed
  qed
  have id_f: "booking_id (f x) = booking_id x" for x
    by (simp add: f_def)
  then have ids_eq: "map booking_id (map f (store e)) = map booking_id (store e)"
    by (simp add: comp_def)
  with inv have ids: "distinct (map booking_id (store e'))"
    "\<forall>x \<in> set (store e'). booking_id x < next_booking_id e'"
    by (auto simp add: e' engine_inv_def id_f simp del: map_map)
  from pairs idx ids show ?thesis
    unfolding engine_inv_def by (simp add: e')
qed


lemma perform_inv:
  assumes "engine_inv (engine sys)"
  shows "engine_inv (engine (perform sys op))"
proof (cases op)
  case (Book rid rng organizer title')
  with assms show ?thesis
    by (auto split: sum.splits dest: book_inv)
next
  case (Cancel bid)
  with assms show ?thesis
    by (auto split: sum.splits dest: cancel_inv)
next
  case (Alter bid new_range)
  with assms show ?thesis
    by (auto split: sum.splits dest: alter_inv)
next
  case (Page ev)
  with assms show ?thesis by simp
qed

lemma foldl_perform_inv:
  "engine_inv (engine sys) \<Longrightarrow> engine_inv (engine (foldl perform sys ops))"
  by (induction ops arbitrary: sys) (simp_all add: perform_inv)

lemma run_inv: "engine_inv (engine (run rooms ops))"
  unfolding run_def by (rule foldl_perform_inv) (rule engine_inv_initial)

text \<open>
  C1: in every state reached from the empty store by any sequence of \<open>book\<close>,
  \<open>cancel\<close> and \<open>alter\<close> operations and events of the booking page (the confirm
  button and its timer among them), any two different bookings that are both
  booked, for the same room, have ranges that do not overlap. Operations that
  fail are part of the sequences; they leave the state as it was.
\<close>

theorem no_double_booking:
  "(let bs = store (engine (run rooms ops)) in
    \<forall>i < length bs. \<forall>j < length bs.
      i \<noteq> j \<and> booking_status (bs ! i) = Booked \<and> booking_status (bs ! j) = Booked \<and>
      room_ref (bs ! i) = room_ref (bs ! j) \<longrightarrow>
      \<not> overlap (time_range (bs ! i)) (time_range (bs ! j)))"
  using run_inv [of rooms ops]
  by (auto simp add: engine_inv_def double_booked_def Let_def)

theorem no_double_booking_witness:
  "map (\<lambda>b. (booking_id b, start (time_range b), end' (time_range b), booking_status b))
     (store (engine (run example_rooms example_operations))) =
     [(0, 590, 650, Booked), (1, 600, 660, Cancelled), (2, 650, 700, Booked)] \<and>
   \<not> overlap \<lparr>start = 590, end' = 650\<rparr> \<lparr>start = 650, end' = 700\<rparr>"
  using no_double_booking [of example_rooms example_operations]
  by (simp add: example_rooms_def example_operations_def run_def initial_system_def
      book_def cancel_def alter_def catalog_get_def conflicting_def reserve_def
      release_def overlap_def valid_range_def Let_def)

end
